theory Spec2Isabelle
  imports Main "HOL-Library.Word"
begin

section \<open>JavaScript values\<close>

text \<open>
  The auth transforms of \<^verbatim>\<open>send-req.ts\<close> work on untyped objects
  (\<^verbatim>\<open>Record<string, any>\<close>): a field of the result can hold a string, a boolean,
  \<^verbatim>\<open>undefined\<close> or a nested object.  Values are therefore a datatype of their own.
  An object is the list of its own properties, read with first-match lookup.

  No transform computes with a number or compares one: a number is only tested for
  truthiness and printed inside a template literal.  A number value is therefore given by
  these two observations, whether it is falsy (\<^verbatim>\<open>0\<close>, \<^verbatim>\<open>-0\<close>, \<^verbatim>\<open>NaN\<close>) and
  the text \<^verbatim>\<open>`${n}`\<close> of it (\<^verbatim>\<open>5\<close>, \<^verbatim>\<open>0.5\<close>, \<^verbatim>\<open>1e+21\<close>, \<^verbatim>\<open>NaN\<close>), so
  that every number, of any size, is a value of the model.
\<close>

datatype jsnum = Number (num_falsy: bool) (num_text: string)

datatype jsval =
    JUndefined
  | JNull
  | JBool bool
  | JNum jsnum
  | JStr string
  | JArr "jsval list"
  | JObj "(string \<times> jsval) list"

text \<open>Truthiness, as \<^verbatim>\<open>!v\<close>, \<^verbatim>\<open>a || b\<close> and \<^verbatim>\<open>if (v)\<close> read it.\<close>

fun truthy :: "jsval \<Rightarrow> bool" where
  "truthy JUndefined = False"
| "truthy JNull = False"
| "truthy (JBool b) = b"
| "truthy (JNum n) = (\<not> num_falsy n)"
| "truthy (JStr s) = (s \<noteq> [])"
| "truthy (JArr xs) = True"
| "truthy (JObj kvs) = True"

definition js_or :: "jsval \<Rightarrow> jsval \<Rightarrow> jsval" where
  "js_or a b = (if truthy a then a else b)"

text \<open>
  Property read \<^verbatim>\<open>v.name\<close> on a value that is not null or undefined: an own property
  of an object, \<^verbatim>\<open>undefined\<close> for a missing one and for every property name used here
  on a primitive or an array.
\<close>

fun get_prop :: "jsval \<Rightarrow> string \<Rightarrow> jsval" where
  "get_prop (JObj kvs) k = (case map_of kvs k of Some v \<Rightarrow> v | None \<Rightarrow> JUndefined)"
| "get_prop v k = JUndefined"

fun join_with :: "string \<Rightarrow> string list \<Rightarrow> string" where
  "join_with sep [] = []"
| "join_with sep [x] = x"
| "join_with sep (x # y # ys) = x @ sep @ join_with sep (y # ys)"

text \<open>
  String conversion \<^verbatim>\<open>`${v}`\<close>: a number gives its text, an array joins its elements with a comma and
  renders null and undefined elements as the empty string; a plain object is
  \<^verbatim>\<open>[object Object]\<close>.
\<close>

fun to_str :: "jsval \<Rightarrow> string"
  and elem_str :: "jsval \<Rightarrow> string" where
  "to_str JUndefined = ''undefined''"
| "to_str JNull = ''null''"
| "to_str (JBool b) = (if b then ''true'' else ''false'')"
| "to_str (JNum n) = num_text n"
| "to_str (JStr s) = s"
| "to_str (JArr xs) = join_with '','' (map elem_str xs)"
| "to_str (JObj kvs) = ''[object Object]''"
| "elem_str JUndefined = []"
| "elem_str JNull = []"
| "elem_str (JBool b) = (if b then ''true'' else ''false'')"
| "elem_str (JNum n) = num_text n"
| "elem_str (JStr s) = s"
| "elem_str (JArr xs) = join_with '','' (map elem_str xs)"
| "elem_str (JObj kvs) = ''[object Object]''"

text \<open>
  A thrown value: the \<^verbatim>\<open>name\<close> and \<^verbatim>\<open>message\<close> of the error object.
  \<^verbatim>\<open>Error(msg)\<close> and \<^verbatim>\<open>new Error(msg)\<close> have the name \<^verbatim>\<open>Error\<close>.
\<close>

datatype thrown = Thrown (err_name: string) (err_message: string)

definition Error :: "string \<Rightarrow> thrown" where
  "Error msg = Thrown ''Error'' msg"

section \<open>Auth transforms (send-req.ts)\<close>

definition AUTH_NONE :: string where "AUTH_NONE = ''none''"
definition AUTH_OAUTH_2 :: string where "AUTH_OAUTH_2 = ''oauth2''"
definition AUTH_OAUTH_1 :: string where "AUTH_OAUTH_1 = ''oauth1''"
definition AUTH_BASIC :: string where "AUTH_BASIC = ''basic''"
definition AUTH_DIGEST :: string where "AUTH_DIGEST = ''digest''"
definition AUTH_NTLM :: string where "AUTH_NTLM = ''ntlm''"
definition AUTH_HAWK :: string where "AUTH_HAWK = ''hawk''"
definition AUTH_AWS_IAM :: string where "AUTH_AWS_IAM = ''iam''"
definition AUTH_NETRC :: string where "AUTH_NETRC = ''netrc''"
definition AUTH_ASAP :: string where "AUTH_ASAP = ''asap''"
definition HAWK_ALGORITHM_SHA256 :: string where "HAWK_ALGORITHM_SHA256 = ''sha256''"

text \<open>
  \<^verbatim>\<open>transformAuth(type, oldAuth = {})\<close>.  The switch is on the string \<^verbatim>\<open>type\<close>;
  \<^verbatim>\<open>oldAuth\<close> is an object, given by its properties.  The function has no
  \<^verbatim>\<open>throw\<close>: the \<^verbatim>\<open>default\<close> branch shares the body of the \<^verbatim>\<open>netrc\<close>
  case and returns \<^verbatim>\<open>{ type }\<close>.
\<close>

definition transformAuth :: "string \<Rightarrow> (string \<times> jsval) list \<Rightarrow> jsval" where
  "transformAuth type oldAuth =
     (if type = AUTH_NONE then JObj []
      else if type = AUTH_BASIC then
        JObj [(''type'', JStr type),
              (''useISO88591'', js_or (get_prop (JObj oldAuth) ''useISO88591'') (JBool False)),
              (''disabled'', js_or (get_prop (JObj oldAuth) ''disabled'') (JBool False)),
              (''username'', js_or (get_prop (JObj oldAuth) ''username'') (JStr [])),
              (''password'', js_or (get_prop (JObj oldAuth) ''password'') (JStr []))]
      else if type = AUTH_DIGEST \<or> type = AUTH_NTLM then
        JObj [(''type'', JStr type),
              (''disabled'', js_or (get_prop (JObj oldAuth) ''disabled'') (JBool False)),
              (''username'', js_or (get_prop (JObj oldAuth) ''username'') (JStr [])),
              (''password'', js_or (get_prop (JObj oldAuth) ''password'') (JStr []))]
      else if type = AUTH_OAUTH_1 then
        JObj [(''type'', JStr type),
              (''disabled'', JBool False),
              (''signatureMethod'', JStr ''HMAC-SHA1''),
              (''consumerKey'', JStr []),
              (''consumerSecret'', JStr []),
              (''tokenKey'', JStr []),
              (''tokenSecret'', JStr []),
              (''privateKey'', JStr []),
              (''version'', JStr ''1.0''),
              (''nonce'', JStr []),
              (''timestamp'', JStr []),
              (''callback'', JStr [])]
      else if type = AUTH_OAUTH_2 then
        JObj [(''type'', JStr type), (''grantType'', JStr ''authorization_code'')]
      else if type = AUTH_AWS_IAM then
        JObj [(''type'', JStr type),
              (''disabled'', js_or (get_prop (JObj oldAuth) ''disabled'') (JBool False)),
              (''accessKeyId'', js_or (get_prop (JObj oldAuth) ''accessKeyId'') (JStr [])),
              (''secretAccessKey'', js_or (get_prop (JObj oldAuth) ''secretAccessKey'') (JStr [])),
              (''sessionToken'', js_or (get_prop (JObj oldAuth) ''sessionToken'') (JStr []))]
      else if type = AUTH_HAWK then
        JObj [(''type'', JStr type), (''algorithm'', JStr HAWK_ALGORITHM_SHA256)]
      else if type = AUTH_ASAP then
        JObj [(''type'', JStr type),
              (''issuer'', JStr []),
              (''subject'', JStr []),
              (''audience'', JStr []),
              (''additionalClaims'', JStr []),
              (''keyId'', JStr []),
              (''privateKey'', JStr [])]
      else JObj [(''type'', JStr type)])"

text \<open>
  \<^verbatim>\<open>transformAuthentication(auth)\<close> starts from \<^verbatim>\<open>auth.toJSON()\<close>; the class
  \<^verbatim>\<open>RequestAuth\<close> is not part of the sources, so the model takes that JSON object as
  its argument.  Its shape is the one \<^verbatim>\<open>findValueInObj\<close> declares: a \<^verbatim>\<open>type\<close>
  string and, under scheme names, optional arrays of \<^verbatim>\<open>{ key: string; value: string }\<close>.
\<close>

record kv =
  kv_key :: string
  kv_value :: string

record AuthJSON =
  auth_type :: string
  auth_schemes :: "(string \<times> kv list) list"

definition scheme_of :: "AuthJSON \<Rightarrow> string \<Rightarrow> kv list option" where
  "scheme_of authObj name = map_of (auth_schemes authObj) name"

definition kv_obj :: "kv \<Rightarrow> jsval" where
  "kv_obj e = JObj [(''key'', JStr (kv_key e)), (''value'', JStr (kv_value e))]"

text \<open>
  \<^verbatim>\<open>findValueInObj\<close>: without an array the result is the empty string.  Otherwise it is
  \<^verbatim>\<open>kvs.find(cb, '')\<close>, where the callback returns \<^verbatim>\<open>kv.value\<close> for a matching key
  and \<^verbatim>\<open>''\<close> otherwise; \<^verbatim>\<open>find\<close> reads that result as a truth value and returns
  the first \<^emph>\<open>element\<close> for which it is truthy, or \<^verbatim>\<open>undefined\<close>.
\<close>

definition findValueInObj :: "string \<Rightarrow> kv list option \<Rightarrow> jsval" where
  "findValueInObj targetKey kvs =
     (case kvs of
        None \<Rightarrow> JStr []
      | Some es \<Rightarrow>
          (case find (\<lambda>e. truthy (if kv_key e = targetKey then JStr (kv_value e) else JStr [])) es of
             None \<Rightarrow> JUndefined
           | Some e \<Rightarrow> kv_obj e))"

definition transformAuthentication :: "AuthJSON \<Rightarrow> thrown + jsval" where
  "transformAuthentication authObj =
     (let t = auth_type authObj in
      if t = ''noauth'' then Inr (transformAuth AUTH_NONE [])
      else if t = ''basic'' then
        Inr (transformAuth AUTH_BASIC
          [(''useISO88591'', JBool False),
           (''disabled'', JBool False),
           (''username'', findValueInObj ''username'' (scheme_of authObj ''basic'')),
           (''password'', findValueInObj ''password'' (scheme_of authObj ''basic''))])
      else if t = ''digest'' then
        Inr (transformAuth AUTH_DIGEST
          [(''disabled'', JBool False),
           (''username'', findValueInObj ''username'' (scheme_of authObj ''digest'')),
           (''password'', findValueInObj ''password'' (scheme_of authObj ''digest''))])
      else if t = ''ntlm'' then
        Inr (transformAuth AUTH_NTLM
          [(''disabled'', JBool False),
           (''username'', findValueInObj ''username'' (scheme_of authObj ''ntlm'')),
           (''password'', findValueInObj ''password'' (scheme_of authObj ''ntlm''))])
      else if t = ''oauth1'' then
        Inr (transformAuth AUTH_OAUTH_1
          [(''disabled'', JBool False),
           (''consumerKey'', findValueInObj ''consumerKey'' (scheme_of authObj ''oauth1'')),
           (''consumerSecret'', findValueInObj ''consumerSecret'' (scheme_of authObj ''oauth1'')),
           (''tokenKey'', findValueInObj ''token'' (scheme_of authObj ''oauth1'')),
           (''tokenSecret'', findValueInObj ''tokenSecret'' (scheme_of authObj ''oauth1'')),
           (''privateKey'', findValueInObj ''consumerSecret'' (scheme_of authObj ''oauth1'')),
           (''version'', findValueInObj ''version'' (scheme_of authObj ''oauth1'')),
           (''nonce'', findValueInObj ''nonce'' (scheme_of authObj ''oauth1'')),
           (''timestamp'', findValueInObj ''timestamp'' (scheme_of authObj ''oauth1'')),
           (''callback'', findValueInObj ''callback'' (scheme_of authObj ''oauth1''))])
      else if t = ''oauth2'' then Inr (transformAuth AUTH_OAUTH_2 [])
      else if t = ''awsv4'' then
        Inr (transformAuth AUTH_AWS_IAM
          [(''disabled'', JBool False),
           (''accessKeyId'', findValueInObj ''accessKey'' (scheme_of authObj ''awsv4'')),
           (''secretAccessKey'', findValueInObj ''secretKey'' (scheme_of authObj ''awsv4'')),
           (''sessionToken'', findValueInObj ''sessionToken'' (scheme_of authObj ''awsv4''))])
      else if t = ''hawk'' then Inr (transformAuth AUTH_HAWK [])
      else if t = ''asap'' then
        Inr (transformAuth AUTH_ASAP
          [(''issuer'', findValueInObj ''iss'' (scheme_of authObj ''asap'')),
           (''subject'', findValueInObj ''sub'' (scheme_of authObj ''asap'')),
           (''audience'', findValueInObj ''aud'' (scheme_of authObj ''asap'')),
           (''additionalClaims'', findValueInObj ''claims'' (scheme_of authObj ''asap'')),
           (''keyId'', findValueInObj ''kid'' (scheme_of authObj ''asap'')),
           (''privateKey'', findValueInObj ''privateKey'' (scheme_of authObj ''asap''))])
      else if t = ''netrc'' then Inr (transformAuth AUTH_NETRC [])
      else Inl (Error (''unknown auth type: '' @ t)))"

text \<open>
  \<^verbatim>\<open>transformToPreRequestAuth(auth)\<close>.  The argument is any value: the guard
  \<^verbatim>\<open>!auth || !auth.type\<close> comes first, and the switch compares \<^verbatim>\<open>auth.type\<close>
  with \<^verbatim>\<open>===\<close>, so only a string can match a case label.  Every scheme's array
  pairs a key with the property of the same name.
\<close>

definition kv_pair :: "string \<Rightarrow> jsval \<Rightarrow> jsval" where
  "kv_pair k v = JObj [(''key'', JStr k), (''value'', v)]"

definition kv_fields :: "jsval \<Rightarrow> string list \<Rightarrow> jsval" where
  "kv_fields auth names = JArr (map (\<lambda>k. kv_pair k (get_prop auth k)) names)"

definition noauth_obj :: jsval where
  "noauth_obj = JObj [(''type'', JStr ''noauth'')]"

definition transformToPreRequestAuth :: "jsval \<Rightarrow> thrown + jsval" where
  "transformToPreRequestAuth auth =
     (if \<not> truthy auth \<or> \<not> truthy (get_prop auth ''type'') then Inr noauth_obj
      else
        let t = get_prop auth ''type'' in
        if t = JStr ''noauth'' then Inr noauth_obj
        else if t = JStr ''basic'' then
          Inr (JObj [(''type'', JStr ''basic''),
                     (''basic'', kv_fields auth
                        [''useISO88591'', ''disabled'', ''username'', ''password''])])
        else if t = JStr ''digest'' then
          Inr (JObj [(''type'', JStr ''digest''),
                     (''digest'', kv_fields auth [''disabled'', ''username'', ''password''])])
        else if t = JStr ''ntlm'' then
          Inr (JObj [(''type'', JStr ''ntlm''),
                     (''ntlm'', kv_fields auth [''disabled'', ''username'', ''password''])])
        else if t = JStr ''oauth1'' then
          Inr (JObj [(''type'', JStr ''oauth1''),
                     (''oauth1'', kv_fields auth
                        [''disabled'', ''consumerKey'', ''consumerSecret'', ''tokenKey'',
                         ''tokenSecret'', ''privateKey'', ''version'', ''nonce'',
                         ''timestamp'', ''callback''])])
        else if t = JStr ''oauth2'' then
          Inr (JObj [(''type'', JStr ''oauth2''),
                     (''oauth2'', kv_fields auth [''key'', ''value'', ''enabled'', ''send_as''])])
        else if t = JStr ''awsv4'' then
          Inr (JObj [(''type'', JStr ''awsv4''),
                     (''awsv4'', kv_fields auth
                        [''disabled'', ''accessKeyId'', ''secretAccessKey'', ''sessionToken''])])
        else if t = JStr ''hawk'' then
          Inr (JObj [(''type'', JStr ''hawk''),
                     (''hawk'', kv_fields auth
                        [''includePayloadHash'', ''timestamp'', ''delegation'', ''app'',
                         ''extraData'', ''nonce'', ''user'', ''authKey'', ''authId'',
                         ''algorithm'', ''id''])])
        else if t = JStr ''asap'' then
          Inr (JObj [(''type'', JStr ''asap''),
                     (''asap'', kv_fields auth
                        [''exp'', ''claims'', ''sub'', ''privateKey'', ''kid'', ''aud'',
                         ''iss'', ''alg'', ''id''])])
        else if t = JStr ''netrc'' then Inl (Error ''net rc is not supported yet'')
        else Inl (Error (''unknown auth type or unsupported auth type: '' @ to_str t)))"

section \<open>RequestBody (req-resp.ts)\<close>

text \<open>
  \<^verbatim>\<open>RequestBodyOptions\<close> and \<^verbatim>\<open>RequestBody\<close>.  The mode is a string or
  \<^verbatim>\<open>undefined\<close>; a \<^verbatim>\<open>FormParam\<close> and a \<^verbatim>\<open>QueryParam\<close> carry a key and a
  value; \<^verbatim>\<open>graphql\<close> is any object, \<^verbatim>\<open>JUndefined\<close> when it is not set.  The
  constructor accepts \<^verbatim>\<open>urlencoded\<close> as a string as well as a list.
\<close>

datatype urlencoded_arg = UrlencodedString string | UrlencodedList "kv list"

record RequestBodyOptions =
  rbo_mode :: "string option"
  rbo_file :: "string option"
  rbo_formdata :: "kv list option"
  rbo_graphql :: jsval
  rbo_raw :: "string option"
  rbo_urlencoded :: "urlencoded_arg option"

record RequestBody =
  rb_mode :: "string option"
  rb_file :: "string option"
  rb_formdata :: "kv list option"
  rb_graphql :: jsval
  rb_raw :: "string option"
  rb_urlencoded :: "kv list option"

text \<open>
  The constructor.  \<^verbatim>\<open>QueryParam.parse\<close> is not part of the sources: the parameter
  \<open>query_entries\<close> stands for
  \<^verbatim>\<open>Object.entries(QueryParam.parse(s)).map(e => ({ key: e[0], value: JSON.stringify(e[1]) }))\<close>.
\<close>

definition RequestBody_new :: "(string \<Rightarrow> kv list) \<Rightarrow> RequestBodyOptions \<Rightarrow> RequestBody" where
  "RequestBody_new query_entries opts =
     \<lparr> rb_mode = rbo_mode opts,
       rb_file = rbo_file opts,
       rb_formdata =
         (case rbo_formdata opts of
            Some ps \<Rightarrow> Some (map (\<lambda>p. \<lparr> kv_key = kv_key p, kv_value = kv_value p \<rparr>) ps)
          | None \<Rightarrow> None),
       rb_graphql = rbo_graphql opts,
       rb_raw = rbo_raw opts,
       rb_urlencoded =
         (case rbo_urlencoded opts of
            Some (UrlencodedString s) \<Rightarrow> (if s \<noteq> [] then Some (query_entries s) else None)
          | Some (UrlencodedList es) \<Rightarrow>
              Some (map (\<lambda>e. \<lparr> kv_key = kv_key e, kv_value = kv_value e \<rparr>) es)
          | None \<Rightarrow> None) \<rparr>"

definition mode_text :: "string option \<Rightarrow> string" where
  "mode_text m = (case m of None \<Rightarrow> ''undefined'' | Some s \<Rightarrow> s)"

definition unexpected_mode :: "string option \<Rightarrow> thrown" where
  "unexpected_mode m = Error (''mode ('' @ mode_text m @ '') is unexpected'')"

definition nullish :: "jsval \<Rightarrow> bool" where
  "nullish v = (v = JUndefined \<or> v = JNull)"

definition isEmpty :: "RequestBody \<Rightarrow> thrown + bool" where
  "isEmpty b =
     (if rb_mode b = Some ''formdata'' then Inr (rb_formdata b = None)
      else if rb_mode b = Some ''urlencoded'' then Inr (rb_urlencoded b = None)
      else if rb_mode b = Some ''raw'' then Inr (rb_raw b = None)
      else if rb_mode b = Some ''file'' then Inr (rb_file b = None)
      else if rb_mode b = Some ''graphql'' then Inr (nullish (rb_graphql b))
      else Inl (unexpected_mode (rb_mode b)))"

text \<open>
  \<^verbatim>\<open>toString()\<close>: the switch of \<^verbatim>\<open>isEmpty\<close> inside \<^verbatim>\<open>try\<close>, and a
  \<^verbatim>\<open>catch\<close> that returns the empty string.  \<^verbatim>\<open>PropertyList.toString\<close> and
  \<^verbatim>\<open>JSON.stringify\<close> are parameters; each may throw, and the \<^verbatim>\<open>catch\<close> covers them
  too.
\<close>

definition toString_switch ::
  "(kv list \<Rightarrow> thrown + string) \<Rightarrow> (kv list \<Rightarrow> thrown + string) \<Rightarrow> (jsval \<Rightarrow> thrown + string) \<Rightarrow>
   RequestBody \<Rightarrow> thrown + string" where
  "toString_switch formdata_str urlencoded_str stringify b =
     (if rb_mode b = Some ''formdata'' then
        (case rb_formdata b of Some ps \<Rightarrow> formdata_str ps | None \<Rightarrow> Inr [])
      else if rb_mode b = Some ''urlencoded'' then
        (case rb_urlencoded b of Some qs \<Rightarrow> urlencoded_str qs | None \<Rightarrow> Inr [])
      else if rb_mode b = Some ''raw'' then
        (case rb_raw b of Some s \<Rightarrow> (if s \<noteq> [] then Inr s else Inr []) | None \<Rightarrow> Inr [])
      else if rb_mode b = Some ''file'' then
        (case rb_file b of Some s \<Rightarrow> (if s \<noteq> [] then Inr s else Inr []) | None \<Rightarrow> Inr [])
      else if rb_mode b = Some ''graphql'' then
        (if truthy (rb_graphql b) then stringify (rb_graphql b) else Inr [])
      else Inl (unexpected_mode (rb_mode b)))"

definition toString ::
  "(kv list \<Rightarrow> thrown + string) \<Rightarrow> (kv list \<Rightarrow> thrown + string) \<Rightarrow> (jsval \<Rightarrow> thrown + string) \<Rightarrow>
   RequestBody \<Rightarrow> string" where
  "toString formdata_str urlencoded_str stringify b =
     (case toString_switch formdata_str urlencoded_str stringify b of
        Inr s \<Rightarrow> s
      | Inl e \<Rightarrow> [])"

section \<open>Request (req-resp.ts)\<close>

text \<open>
  The classes \<^verbatim>\<open>Header\<close>, \<^verbatim>\<open>HeaderList\<close>, \<^verbatim>\<open>RequestAuth\<close>,
  \<^verbatim>\<open>ProxyConfig\<close>, \<^verbatim>\<open>Certificate\<close> and \<^verbatim>\<open>Url\<close> are imported by
  \<^verbatim>\<open>req-resp.ts\<close> and are not part of the sources.  A header, a proxy configuration and
  a certificate are modelled by the fields this file reads from them, \<^verbatim>\<open>RequestAuth\<close> by
  its JSON form, and a list object by the list of its elements; their constructors and
  \<^verbatim>\<open>toJSON\<close> keep those fields.  The constructor of \<^verbatim>\<open>Request\<close> builds every one
  of these objects afresh with \<^verbatim>\<open>new\<close>, so they are values of the record below.

  \<^verbatim>\<open>Url\<close> is different: the constructor stores a \<^verbatim>\<open>Url\<close> object it is handed as
  it is, and \<^verbatim>\<open>addQueryParams\<close> mutates it in place.  A \<^verbatim>\<open>Url\<close> object therefore
  lives in a store, a request holds its address, and the content of a \<^verbatim>\<open>Url\<close> is a
  type parameter \<open>'u\<close> with its operations as parameters.
\<close>

record Header =
  hdr_key :: string
  hdr_value :: string
  hdr_disabled :: "bool option"

record ProxyConfig =
  pc_match :: jsval
  pc_host :: jsval
  pc_port :: jsval
  pc_tunnel :: jsval
  pc_disabled :: jsval
  pc_authenticate :: jsval
  pc_username :: jsval
  pc_password :: jsval

record Certificate =
  cert_name :: jsval
  cert_matches :: "string list option"
  cert_key :: jsval
  cert_cert :: jsval
  cert_passphrase :: jsval
  cert_pfx :: jsval

type_synonym addr = nat

datatype url_arg = UrlString string | UrlObject addr

datatype header_arg = HeaderArray "Header list" | HeaderObject "(string \<times> string) list"

record RequestOptions =
  opt_url :: url_arg
  opt_method :: "string option"
  opt_header :: "header_arg option"
  opt_body :: "RequestBodyOptions option"
  opt_auth :: "AuthJSON option"
  opt_proxy :: "ProxyConfig option"
  opt_certificate :: "Certificate option"

record Request =
  req_id :: string
  req_url :: addr
  req_method :: string
  req_headers :: "Header list"
  req_body :: "RequestBody option"
  req_auth :: AuthJSON
  req_proxy :: "ProxyConfig option"
  req_certificate :: "Certificate option"

text \<open>\<^verbatim>\<open>s.indexOf(p) >= 0\<close>: \<open>p\<close> occurs in \<open>s\<close>.\<close>

fun has_infix :: "string \<Rightarrow> string \<Rightarrow> bool" where
  "has_infix p [] = (p = [])"
| "has_infix p (c # cs) = (take (length p) (c # cs) = p \<or> has_infix p cs)"

text \<open>
  \<^verbatim>\<open>new Url(s)\<close> allocates a fresh object: the store grows by one cell and the new
  address is returned.
\<close>

definition alloc :: "'u list \<Rightarrow> 'u \<Rightarrow> 'u list \<times> addr" where
  "alloc heap u = (heap @ [u], length heap)"

text \<open>
  The constructor \<^verbatim>\<open>new Request(options)\<close>.  \<open>Url_new\<close> is \<^verbatim>\<open>new Url(string)\<close>;
  \<open>pid\<close> is the id the base class \<^verbatim>\<open>Property\<close> gives the new object.
\<close>

definition Request_new ::
  "(string \<Rightarrow> 'u) \<Rightarrow> (string \<Rightarrow> kv list) \<Rightarrow> string \<Rightarrow> 'u list \<Rightarrow> RequestOptions \<Rightarrow> 'u list \<times> Request" where
  "Request_new Url_new query_entries pid heap options =
     (let (heap', u) =
        (case opt_url options of
           UrlString s \<Rightarrow>
             (if has_infix ''://'' s then alloc heap (Url_new s)
              else alloc heap (Url_new (''https://'' @ s)))
         | UrlObject a \<Rightarrow> (heap, a))
      in (heap',
          \<lparr> req_id = pid,
            req_url = u,
            req_method =
              (case opt_method options of
                 Some m \<Rightarrow> (if m \<noteq> [] then m else ''GET'')
               | None \<Rightarrow> ''GET''),
            req_headers =
              (case opt_header options of
                 Some (HeaderArray hs) \<Rightarrow> hs
               | Some (HeaderObject es) \<Rightarrow>
                   map (\<lambda>e. \<lparr> hdr_key = fst e, hdr_value = snd e, hdr_disabled = None \<rparr>) es
               | None \<Rightarrow> []),
            req_body =
              (case opt_body options of
                 Some b \<Rightarrow> Some (RequestBody_new query_entries b)
               | None \<Rightarrow> None),
            req_auth =
              (case opt_auth options of
                 Some a \<Rightarrow> a
               | None \<Rightarrow> \<lparr> auth_type = ''noauth'', auth_schemes = [] \<rparr>),
            req_proxy = opt_proxy options,
            req_certificate = opt_certificate options \<rparr>))"

text \<open>
  \<^verbatim>\<open>clone()\<close> calls the constructor on options read from \<^verbatim>\<open>this\<close>.  The
  \<^verbatim>\<open>url\<close> option is the \<^verbatim>\<open>Url\<close> object itself (\<^verbatim>\<open>url: this.url\<close>); the
  \<^verbatim>\<open>body\<close> and \<^verbatim>\<open>certificate\<close> options are object literals, present whether or
  not the request has a body or a certificate, and each \<^verbatim>\<open>?.\<close> yields
  \<^verbatim>\<open>undefined\<close> when there is none.
\<close>

definition body_opt :: "RequestBody option \<Rightarrow> (RequestBody \<Rightarrow> 'a option) \<Rightarrow> 'a option" where
  "body_opt b f = (case b of None \<Rightarrow> None | Some x \<Rightarrow> f x)"

definition cert_field :: "Certificate option \<Rightarrow> (Certificate \<Rightarrow> jsval) \<Rightarrow> jsval" where
  "cert_field c f = (case c of None \<Rightarrow> JUndefined | Some x \<Rightarrow> f x)"

definition clone_options :: "Request \<Rightarrow> RequestOptions" where
  "clone_options this =
     \<lparr> opt_url = UrlObject (req_url this),
       opt_method = Some (req_method this),
       opt_header = Some (HeaderArray (req_headers this)),
       opt_body = Some
         \<lparr> rbo_mode = body_opt (req_body this) rb_mode,
           rbo_file = body_opt (req_body this) rb_file,
           rbo_formdata = body_opt (req_body this) rb_formdata,
           rbo_graphql = (case req_body this of None \<Rightarrow> JUndefined | Some b \<Rightarrow> rb_graphql b),
           rbo_raw = body_opt (req_body this) rb_raw,
           rbo_urlencoded =
             map_option UrlencodedList (body_opt (req_body this) rb_urlencoded) \<rparr>,
       opt_auth = Some (req_auth this),
       opt_proxy =
         (case req_proxy this of
            Some p \<Rightarrow> Some
              \<lparr> pc_match = pc_match p, pc_host = pc_host p, pc_port = pc_port p,
                pc_tunnel = pc_tunnel p, pc_disabled = pc_disabled p,
                pc_authenticate = pc_authenticate p, pc_username = pc_username p,
                pc_password = pc_password p \<rparr>
          | None \<Rightarrow> None),
       opt_certificate = Some
         \<lparr> cert_name = cert_field (req_certificate this) cert_name,
           cert_matches =
             (case req_certificate this of None \<Rightarrow> None | Some c \<Rightarrow> cert_matches c),
           cert_key = cert_field (req_certificate this) cert_key,
           cert_cert = cert_field (req_certificate this) cert_cert,
           cert_passphrase = cert_field (req_certificate this) cert_passphrase,
           cert_pfx = cert_field (req_certificate this) cert_pfx \<rparr> \<rparr>"

definition clone ::
  "(string \<Rightarrow> 'u) \<Rightarrow> (string \<Rightarrow> kv list) \<Rightarrow> string \<Rightarrow> 'u list \<Rightarrow> Request \<Rightarrow> 'u list \<times> Request" where
  "clone Url_new query_entries pid heap this =
     Request_new Url_new query_entries pid heap (clone_options this)"

text \<open>
  \<^verbatim>\<open>addQueryParams(params)\<close> is \<^verbatim>\<open>this.url.addQueryParams(params)\<close>: the
  \<^verbatim>\<open>Url\<close> object at the request's address is changed in place.  \<open>Url_add\<close> is the
  effect of \<^verbatim>\<open>Url.addQueryParams\<close> on the content of the object.
\<close>

definition addQueryParams :: "('u \<Rightarrow> 'p \<Rightarrow> 'u) \<Rightarrow> 'u list \<Rightarrow> Request \<Rightarrow> 'p \<Rightarrow> 'u list" where
  "addQueryParams Url_add heap this params =
     (if req_url this < length heap
      then heap[req_url this := Url_add (heap ! req_url this) params]
      else heap)"

text \<open>Reading \<^verbatim>\<open>request.url\<close>: the content of the object at the request's address.\<close>

definition url_of :: "'u list \<Rightarrow> Request \<Rightarrow> 'u option" where
  "url_of heap this = (if req_url this < length heap then Some (heap ! req_url this) else None)"

section \<open>Response (req-resp.ts)\<close>

text \<open>
  A response body is read by \<^verbatim>\<open>charCodeAt\<close> and compared with \<^verbatim>\<open>0xFEFF\<close>, so
  it is a JavaScript string as such: a list of 16-bit code units.  The other strings of the
  model are names and messages, and stay \<open>string\<close>.
\<close>

type_synonym jsstring = "16 word list"

text \<open>
  A place that holds an object, \<^verbatim>\<open>null\<close> or \<^verbatim>\<open>undefined\<close>.  The cookie list of a
  response is declared \<^verbatim>\<open>CookieOptions[]\<close>, but the bridge fills it through the cast
  \<^verbatim>\<open>cookies as CookieOptions[]\<close> from a list whose entries can be \<^verbatim>\<open>null\<close>.
\<close>

datatype 'a nullable = IsUndefined | IsNull | IsValue 'a

record CookieOptions =
  ck_key :: string
  ck_value :: string
  ck_expires :: jsval
  ck_maxAge :: jsval
  ck_domain :: jsval
  ck_path :: jsval
  ck_secure :: jsval
  ck_httpOnly :: jsval
  ck_hostOnly :: jsval

record ResponseOptions =
  ropt_code :: int
  ropt_reason :: "string option"
  ropt_header :: "Header list option"
  ropt_cookie :: "CookieOptions nullable list option"
  ropt_body :: "jsstring option"
  ropt_stream :: "jsstring option"
  ropt_responseTime :: int
  ropt_status :: "string option"

record Response =
  resp_body :: jsstring
  resp_code :: int
  resp_cookies :: "CookieOptions nullable list"
  resp_headers :: "Header list"
  resp_responseTime :: int
  resp_status :: "string option"
  resp_stream :: "jsstring option"

text \<open>
  The constructor.  The table \<^verbatim>\<open>RESPONSE_CODE_REASONS\<close> is imported from
  \<^verbatim>\<open>common/constants\<close>, which is not part of the sources: it is a parameter, a
  partial map from status codes to reason phrases.  \<^verbatim>\<open>Cookie\<close> and \<^verbatim>\<open>Header\<close>
  objects are modelled by the options they are built from, whatever these are.
\<close>

definition Response_new :: "(int \<Rightarrow> string option) \<Rightarrow> ResponseOptions \<Rightarrow> Response" where
  "Response_new RESPONSE_CODE_REASONS options =
     \<lparr> resp_body = (case ropt_body options of Some b \<Rightarrow> b | None \<Rightarrow> []),
       resp_code = ropt_code options,
       resp_cookies = (case ropt_cookie options of Some cs \<Rightarrow> cs | None \<Rightarrow> []),
       resp_headers = (case ropt_header options of Some hs \<Rightarrow> hs | None \<Rightarrow> []),
       resp_responseTime = ropt_responseTime options,
       resp_status = RESPONSE_CODE_REASONS (ropt_code options),
       resp_stream = ropt_stream options \<rparr>"

text \<open>\<^verbatim>\<open>Response.createFromNode(response, cookies)\<close>.\<close>

record NodeResponse =
  nr_body :: jsstring
  nr_headers :: "Header list"
  nr_statusCode :: int
  nr_statusMessage :: string
  nr_elapsedTime :: int

definition createFromNode ::
  "(int \<Rightarrow> string option) \<Rightarrow> NodeResponse \<Rightarrow> CookieOptions nullable list \<Rightarrow> Response" where
  "createFromNode RESPONSE_CODE_REASONS response cookies =
     Response_new RESPONSE_CODE_REASONS
       \<lparr> ropt_code = nr_statusCode response,
         ropt_reason = None,
         ropt_header = Some (nr_headers response),
         ropt_cookie = Some cookies,
         ropt_body = Some (nr_body response),
         ropt_stream = Some (nr_body response),
         ropt_responseTime = nr_elapsedTime response,
         ropt_status = Some (nr_statusMessage response) \<rparr>"

definition reason :: "Response \<Rightarrow> string option" where
  "reason this = resp_status this"





section \<open>Dispatch bridge (send-req.ts)\<close>

subsection \<open>The engine's result\<close>

record ResponseHeader =
  rh_name :: string
  rh_value :: string

record HeaderResult =
  hr_headers :: "ResponseHeader list"
  hr_version :: string
  hr_code :: int
  hr_reason :: string

text \<open>Of \<^verbatim>\<open>ResponsePatch\<close> the bridge reads two fields only.\<close>

record ResponsePatch =
  patch_elapsedTime :: int
  patch_bodyCompression :: "string option"

record CurlRequestOutput =
  out_patch :: ResponsePatch
  out_headerResults :: "HeaderResult list"
  out_responseBodyPath :: "string option"

record BodyResult =
  br_body :: jsstring
  br_error :: "string option"

text \<open>
  \<^verbatim>\<open>name.toLowerCase()\<close> on a header name.  Header names are ASCII, where lower-casing
  moves \<^verbatim>\<open>A\<close>..\<^verbatim>\<open>Z\<close> to \<^verbatim>\<open>a\<close>..\<^verbatim>\<open>z\<close> and keeps every other character.
\<close>

definition lower_char :: "char \<Rightarrow> char" where
  "lower_char c =
     (let n = (of_char c :: nat) in if 65 \<le> n \<and> n \<le> 90 then char_of (n + 32) else c)"

definition toLowerCase :: "string \<Rightarrow> string" where
  "toLowerCase s = map lower_char s"

text \<open>
  The object \<^verbatim>\<open>Cookie.parse\<close> of the library tough-cookie returns, by the fields the
  bridge copies.  \<^verbatim>\<open>Cookie.parse\<close> is a parameter: for a string it returns a cookie
  object, \<^verbatim>\<open>undefined\<close> or \<^verbatim>\<open>null\<close>, and the bridge tells the three apart.
\<close>

record ToughCookie =
  tc_key :: string
  tc_value :: string
  tc_expires :: jsval
  tc_maxAge :: jsval
  tc_domain :: jsval
  tc_path :: jsval
  tc_secure :: jsval
  tc_httpOnly :: jsval
  tc_hostOnly :: jsval

definition cookie_options :: "ToughCookie \<Rightarrow> CookieOptions" where
  "cookie_options cookieObj =
     \<lparr> ck_key = tc_key cookieObj,
       ck_value = tc_value cookieObj,
       ck_expires = tc_expires cookieObj,
       ck_maxAge = tc_maxAge cookieObj,
       ck_domain = tc_domain cookieObj,
       ck_path = tc_path cookieObj,
       ck_secure = tc_secure cookieObj,
       ck_httpOnly = tc_httpOnly cookieObj,
       ck_hostOnly = tc_hostOnly cookieObj \<rparr>"

text \<open>
  The headers named \<^verbatim>\<open>set-cookie\<close> of one hop; then one parse per header, where a
  result that is \<^verbatim>\<open>!= null\<close> becomes cookie options and any other result is returned
  as it is; then the filter \<^verbatim>\<open>cookieOpt !== undefined\<close>.
\<close>

definition cookieHeaders_of :: "HeaderResult \<Rightarrow> ResponseHeader list" where
  "cookieHeaders_of lastRedirect =
     filter (\<lambda>h. toLowerCase (rh_name h) = ''set-cookie'') (hr_headers lastRedirect)"

definition cookies_of ::
  "(string \<Rightarrow> ToughCookie nullable) \<Rightarrow> HeaderResult \<Rightarrow> CookieOptions nullable list" where
  "cookies_of Cookie_parse lastRedirect =
     filter (\<lambda>cookieOpt. cookieOpt \<noteq> IsUndefined)
       (map (\<lambda>cookieHeader.
               (case Cookie_parse (if rh_value cookieHeader \<noteq> [] then rh_value cookieHeader else []) of
                  IsValue cookieObj \<Rightarrow> IsValue (cookie_options cookieObj)
                | IsNull \<Rightarrow> IsNull
                | IsUndefined \<Rightarrow> IsUndefined))
          (cookieHeaders_of lastRedirect))"

text \<open>
  \<^verbatim>\<open>fromCurlOutputToResponse(result)\<close>.  An empty \<^verbatim>\<open>headerResults\<close> makes
  \<^verbatim>\<open>lastRedirect\<close> undefined, and reading \<^verbatim>\<open>lastRedirect.code\<close> throws a
  \<^verbatim>\<open>TypeError\<close>.  \<open>readCurlResponse\<close> is the engine's read of a stored body:
  \<open>Inl\<close> when its promise rejects.
\<close>

definition fromCurlOutputToResponse ::
  "(int \<Rightarrow> string option) \<Rightarrow> (string \<Rightarrow> ToughCookie nullable) \<Rightarrow>
   (string \<Rightarrow> string option \<Rightarrow> thrown + BodyResult) \<Rightarrow> CurlRequestOutput \<Rightarrow> thrown + Response" where
  "fromCurlOutputToResponse RESPONSE_CODE_REASONS Cookie_parse readCurlResponse result =
     (if out_headerResults result = [] then
        Inl (Thrown ''TypeError'' ''Cannot read properties of undefined (reading 'code')'')
      else
        let lastRedirect = out_headerResults result ! (length (out_headerResults result) - 1);
            code = hr_code lastRedirect;
            reason = hr_reason lastRedirect;
            status = hr_reason lastRedirect;
            responseTime = patch_elapsedTime (out_patch result);
            headers = map (\<lambda>h. \<lparr> hdr_key = rh_name h, hdr_value = rh_value h, hdr_disabled = None \<rparr>)
                        (hr_headers lastRedirect);
            cookies = cookies_of Cookie_parse lastRedirect
        in
          (case out_responseBodyPath result of
             None \<Rightarrow>
               Inr (Response_new RESPONSE_CODE_REASONS
                 \<lparr> ropt_code = code, ropt_reason = Some reason, ropt_header = Some headers,
                   ropt_cookie = Some cookies, ropt_body = Some [], ropt_stream = None,
                   ropt_responseTime = responseTime, ropt_status = Some status \<rparr>)
           | Some bodyPath \<Rightarrow>
               if bodyPath = [] then
                 Inr (Response_new RESPONSE_CODE_REASONS
                   \<lparr> ropt_code = code, ropt_reason = Some reason, ropt_header = Some headers,
                     ropt_cookie = Some cookies, ropt_body = Some [], ropt_stream = None,
                     ropt_responseTime = responseTime, ropt_status = Some status \<rparr>)
               else
                 (case readCurlResponse bodyPath (patch_bodyCompression (out_patch result)) of
                    Inl e \<Rightarrow> Inl e
                  | Inr bodyResult \<Rightarrow>
                      (case br_error bodyResult of
                         Some err \<Rightarrow>
                           if err \<noteq> [] then Inl (Error err)
                           else
                             Inr (Response_new RESPONSE_CODE_REASONS
                               \<lparr> ropt_code = code, ropt_reason = Some reason,
                                 ropt_header = Some headers, ropt_cookie = Some cookies,
                                 ropt_body = Some (br_body bodyResult), ropt_stream = None,
                                 ropt_responseTime = responseTime, ropt_status = Some status \<rparr>)
                       | None \<Rightarrow>
                           Inr (Response_new RESPONSE_CODE_REASONS
                             \<lparr> ropt_code = code, ropt_reason = Some reason,
                               ropt_header = Some headers, ropt_cookie = Some cookies,
                               ropt_body = Some (br_body bodyResult), ropt_stream = None,
                               ropt_responseTime = responseTime, ropt_status = Some status \<rparr>)))))"

subsection \<open>Lowering a request to engine options\<close>

text \<open>
  What \<^verbatim>\<open>fromRequestToCurlOptions\<close> needs from outside this file:
  the operations of \<^verbatim>\<open>Url\<close>, \<^verbatim>\<open>PropertyList.toString\<close> and
  \<^verbatim>\<open>JSON.stringify\<close> as above, \<^verbatim>\<open>settings.followRedirects\<close>, the result of
  \<^verbatim>\<open>uuidv4()\<close> and the id of a newly constructed \<^verbatim>\<open>Request\<close>.
\<close>

record 'u deps =
  d_Url_new :: "string \<Rightarrow> 'u"
  d_Url_toString :: "'u \<Rightarrow> string"
  d_query_entries :: "string \<Rightarrow> kv list"
  d_formdata_str :: "kv list \<Rightarrow> thrown + string"
  d_urlencoded_str :: "kv list \<Rightarrow> thrown + string"
  d_stringify :: "jsval \<Rightarrow> thrown + string"
  d_followRedirects :: bool
  d_uuid :: string
  d_new_id :: string

text \<open>
  The engine options.  Left out are the fields that are the same constant in both branches
  (\<^verbatim>\<open>settingRebuildPath\<close>, \<^verbatim>\<open>settingSendCookies\<close>, the empty cookie jar and cookie
  list, \<^verbatim>\<open>caCertficatePath\<close>, \<^verbatim>\<open>socketPath\<close>, \<^verbatim>\<open>authHeader\<close>,
  \<^verbatim>\<open>body.mimeType\<close>) and the \<^verbatim>\<open>settings\<close> object that is passed on unchanged.
\<close>

record CurlReq =
  creq_headers :: "ResponseHeader list"
  creq_method :: string
  creq_body_method :: "string option"
  creq_body_text :: "string option"
  creq_authentication :: jsval
  creq_settingFollowRedirects :: string
  creq_url :: string
  creq_suppressUserAgent :: bool

record CurlRequestOptions =
  co_requestId :: string
  co_req :: CurlReq
  co_finalUrl :: string
  co_certificates :: "jsval list"

text \<open>
  The argument of \<^verbatim>\<open>sendRequest\<close>: a string, a \<^verbatim>\<open>Request\<close>, an object with a
  \<^verbatim>\<open>url\<close> property, or any other object.
\<close>

datatype request_like =
    ReqString string
  | ReqRequest Request
  | ReqOptions RequestOptions
  | ReqOther

text \<open>\<^verbatim>\<open>v?.src\<close>.\<close>

definition opt_src :: "jsval \<Rightarrow> jsval" where
  "opt_src v = (if nullish v then JUndefined else get_prop v ''src'')"

definition certificate_entry :: "Certificate \<Rightarrow> jsval" where
  "certificate_entry c =
     JObj [(''host'', js_or (cert_name c) (JStr [])),
           (''passphrase'', js_or (cert_passphrase c) (JStr [])),
           (''cert'', js_or (opt_src (cert_cert c)) (JStr [])),
           (''key'', js_or (opt_src (cert_key c)) (JStr [])),
           (''pfx'', js_or (opt_src (cert_pfx c)) (JStr [])),
           (''disabled'', JBool False),
           (''isPrivate'', JBool False),
           (''_id'', JStr []),
           (''type'', JStr []),
           (''parentId'', JStr []),
           (''modified'', JNum (Number True ''0'')),
           (''created'', JNum (Number True ''0'')),
           (''name'', JStr [])]"

text \<open>
  The branch for a \<^verbatim>\<open>Request\<close>.  The request's \<^verbatim>\<open>Url\<close> is read from the store;
  an address outside the store belongs to no request the constructor built, and is reported
  as an error of the model's own.
\<close>

definition request_options :: "'u deps \<Rightarrow> 'u list \<Rightarrow> Request \<Rightarrow> thrown + CurlRequestOptions" where
  "request_options d heap finalReq =
     (case url_of heap finalReq of
        None \<Rightarrow> Inl (Thrown ''ModelError'' ''no Url object at this address'')
      | Some u \<Rightarrow>
          (case transformAuthentication (req_auth finalReq) of
             Inl e \<Rightarrow> Inl e
           | Inr authentication \<Rightarrow>
               Inr \<lparr> co_requestId =
                       (if req_id finalReq \<noteq> [] then req_id finalReq
                        else ''pre-request-script-adhoc-req:'' @ d_uuid d),
                     co_req =
                       \<lparr> creq_headers =
                           map (\<lambda>h. \<lparr> rh_name = hdr_key h, rh_value = hdr_value h \<rparr>)
                             (req_headers finalReq),
                         creq_method = req_method finalReq,
                         creq_body_method = Some (req_method finalReq),
                         creq_body_text =
                           map_option
                             (toString (d_formdata_str d) (d_urlencoded_str d) (d_stringify d))
                             (req_body finalReq),
                         creq_authentication = authentication,
                         creq_settingFollowRedirects =
                           (if d_followRedirects d then ''on'' else ''off''),
                         creq_url = d_Url_toString d u,
                         creq_suppressUserAgent =
                           (length
                              (map (\<lambda>h. toLowerCase (hdr_key h) = ''user-agent'' \<and>
                                          hdr_disabled h = Some True)
                                 (req_headers finalReq)) > 0) \<rparr>,
                     co_finalUrl = d_Url_toString d u,
                     co_certificates =
                       (case req_certificate finalReq of
                          Some c \<Rightarrow> [certificate_entry c]
                        | None \<Rightarrow> []) \<rparr>))"

definition fromRequestToCurlOptions ::
  "'u deps \<Rightarrow> 'u list \<Rightarrow> request_like \<Rightarrow> thrown + CurlRequestOptions" where
  "fromRequestToCurlOptions d heap req =
     (case req of
        ReqString url \<Rightarrow>
          (case transformAuthentication \<lparr> auth_type = ''noauth'', auth_schemes = [] \<rparr> of
             Inl e \<Rightarrow> Inl e
           | Inr authentication \<Rightarrow>
               Inr \<lparr> co_requestId = ''pre-request-script-adhoc-str-req:'' @ d_uuid d,
                     co_req =
                       \<lparr> creq_headers = [],
                         creq_method = ''GET'',
                         creq_body_method = None,
                         creq_body_text = None,
                         creq_authentication = authentication,
                         creq_settingFollowRedirects =
                           (if d_followRedirects d then ''on'' else ''off''),
                         creq_url = url,
                         creq_suppressUserAgent = False \<rparr>,
                     co_finalUrl = url,
                     co_certificates = [] \<rparr>)
      | ReqRequest r \<Rightarrow> request_options d heap r
      | ReqOptions options \<Rightarrow>
          (let (heap', finalReq) =
             Request_new (d_Url_new d) (d_query_entries d) (d_new_id d) heap options
           in request_options d heap' finalReq)
      | ReqOther \<Rightarrow>
          Inl (Error ''the request type must be: string | Request | RequestOptions.''))"

subsection \<open>sendRequest\<close>

text \<open>
  Modelled from the spec: the cancellation registry of \<^verbatim>\<open>network/cancellation\<close>
  (\<^verbatim>\<open>setCancelRequestFunctionMap\<close>, \<^verbatim>\<open>deleteCancelRequestFunctionMap\<close>), which is
  not part of the sources.  The spec describes a process-wide map keyed by request id, in
  which a cancellation callback is registered and from which it is removed.  The callback
  \<^verbatim>\<open>sendRequest\<close> registers cancels the engine request of that id and aborts the
  controller.
\<close>

datatype cancel_fn = CancelRequest string

type_synonym registry = "string \<Rightarrow> cancel_fn option"

text \<open>
  What one call does, in order: registry updates, the engine call, and the calls of the
  callback \<^verbatim>\<open>cb\<close>.  A callback error is a message built by \<^verbatim>\<open>sendRequest\<close>, or
  the rejection value itself, handed over by \<^verbatim>\<open>.catch(e => cb(e, undefined))\<close>.
\<close>

datatype cb_error = ErrText string | ErrValue thrown

datatype event =
    SetCancel string cancel_fn
  | DeleteCancel string
  | CurlRequest string
  | Callback "cb_error option" "Response option"

fun apply_event :: "registry \<Rightarrow> event \<Rightarrow> registry" where
  "apply_event reg (SetCancel rid f) = reg(rid := Some f)"
| "apply_event reg (DeleteCancel rid) = reg(rid := None)"
| "apply_event reg (CurlRequest rid) = reg"
| "apply_event reg (Callback e r) = reg"

definition run_events :: "registry \<Rightarrow> event list \<Rightarrow> registry" where
  "run_events reg evs = foldl apply_event reg evs"

text \<open>
  The engine call \<^verbatim>\<open>cancellablePromise({ signal, fn: window.curl.curlRequest(options) })\<close>:
  it throws while \<^verbatim>\<open>sendRequest\<close> is still running, or it returns a promise that
  settles later, rejected (a transport failure, or an abort, whose error is named
  \<^verbatim>\<open>AbortError\<close>) or fulfilled with the engine's output.
\<close>

datatype engine_result = ThrowsSync thrown | Settles "thrown + CurlRequestOutput"

record send_result =
  sr_thrown :: "thrown option"
  sr_events :: "event list"

text \<open>
  \<^verbatim>\<open>sendRequest(request, cb)\<close>.  The lowering runs first and outside the
  \<^verbatim>\<open>try\<close>: what it throws leaves \<^verbatim>\<open>sendRequest\<close>.  The \<^verbatim>\<open>catch\<close> block of
  the \<^verbatim>\<open>try\<close> statement runs only for what is thrown while the promise chain is being
  built; a rejection of the chain runs the handler given to \<^verbatim>\<open>.catch\<close>, which calls
  the callback and nothing else.
\<close>

definition sendRequest ::
  "'u deps \<Rightarrow> (int \<Rightarrow> string option) \<Rightarrow> (string \<Rightarrow> ToughCookie nullable) \<Rightarrow>
   (string \<Rightarrow> string option \<Rightarrow> thrown + BodyResult) \<Rightarrow> (CurlRequestOptions \<Rightarrow> engine_result) \<Rightarrow>
   'u list \<Rightarrow> request_like \<Rightarrow> send_result" where
  "sendRequest d RESPONSE_CODE_REASONS Cookie_parse readCurlResponse curlRequest heap request =
     (case fromRequestToCurlOptions d heap request of
        Inl e \<Rightarrow> \<lparr> sr_thrown = Some e, sr_events = [] \<rparr>
      | Inr requestOptions \<Rightarrow>
          (let rid = co_requestId requestOptions in
           \<lparr> sr_thrown = None,
             sr_events =
               [SetCancel rid (CancelRequest rid), CurlRequest rid] @
               (case curlRequest requestOptions of
                  ThrowsSync err \<Rightarrow>
                    [DeleteCancel rid,
                     Callback
                       (Some (ErrText
                          (if err_name err = ''AbortError''
                           then ''Request was cancelled: '' @ err_message err
                           else ''Something went wrong: '' @ err_message err)))
                       None]
                | Settles (Inl e) \<Rightarrow> [Callback (Some (ErrValue e)) None]
                | Settles (Inr output) \<Rightarrow>
                    (case fromCurlOutputToResponse RESPONSE_CODE_REASONS Cookie_parse
                            readCurlResponse output of
                       Inl e \<Rightarrow> [Callback (Some (ErrValue e)) None]
                     | Inr transformedOutput \<Rightarrow> [Callback None (Some transformedOutput)])) \<rparr>))"

subsection \<open>Case labels\<close>

text \<open>
  The labels of the \<^verbatim>\<open>switch\<close> in \<^verbatim>\<open>transformAuthentication\<close>, which are also
  those of \<^verbatim>\<open>transformToPreRequestAuth\<close>, and the labels of the \<^verbatim>\<open>switch\<close> in
  \<^verbatim>\<open>transformAuth\<close>.
\<close>

definition sdk_auth_types :: "string list" where
  "sdk_auth_types =
     [''noauth'', ''basic'', ''digest'', ''ntlm'', ''oauth1'', ''oauth2'', ''awsv4'', ''hawk'',
      ''asap'', ''netrc'']"

definition engine_auth_types :: "string list" where
  "engine_auth_types =
     [AUTH_NONE, AUTH_BASIC, AUTH_DIGEST, AUTH_NTLM, AUTH_OAUTH_1, AUTH_OAUTH_2, AUTH_AWS_IAM,
      AUTH_HAWK, AUTH_ASAP, AUTH_NETRC]"

text \<open>The labels of the \<^verbatim>\<open>switch\<close> in \<^verbatim>\<open>isEmpty\<close> and \<^verbatim>\<open>toString\<close>.\<close>

definition recognized_modes :: "string list" where
  "recognized_modes = [''formdata'', ''urlencoded'', ''raw'', ''file'', ''graphql'']"


section \<open>Auth transforms: what the code does\<close>

lemmas auth_consts =
  AUTH_NONE_def AUTH_OAUTH_2_def AUTH_OAUTH_1_def AUTH_BASIC_def AUTH_DIGEST_def
  AUTH_NTLM_def AUTH_HAWK_def AUTH_AWS_IAM_def AUTH_NETRC_def AUTH_ASAP_def
  HAWK_ALGORITHM_SHA256_def

lemma truthy_get_prop: "truthy (get_prop a k) \<Longrightarrow> truthy a"
  by (cases a) simp_all

text \<open>
  \<^verbatim>\<open>findValueInObj\<close> returns the matching \<^emph>\<open>entry\<close> with a non-empty value, never
  the value string.
\<close>

lemma findValueInObj_entry:
  "findValueInObj k (Some es) =
     (case find (\<lambda>e. kv_key e = k \<and> kv_value e \<noteq> []) es of
        None \<Rightarrow> JUndefined
      | Some e \<Rightarrow> JObj [(''key'', JStr (kv_key e)), (''value'', JStr (kv_value e))])"
proof -
  have "find (\<lambda>e. truthy (if kv_key e = k then JStr (kv_value e) else JStr [])) es
        = find (\<lambda>e. kv_key e = k \<and> kv_value e \<noteq> []) es"
    by (rule find_cong) auto
  then show ?thesis
    by (simp only: findValueInObj_def kv_obj_def option.case)
qed

text \<open>
  For \<^verbatim>\<open>oauth1\<close> and \<^verbatim>\<open>asap\<close>, \<^verbatim>\<open>transformAuth\<close> does not read
  \<^verbatim>\<open>oldAuth\<close>: whatever the scheme array holds, the result is the object of defaults.
\<close>

lemma transformAuthentication_oauth1_defaults:
  "transformAuthentication \<lparr> auth_type = ''oauth1'', auth_schemes = ss \<rparr> =
   Inr (transformAuth AUTH_OAUTH_1 [])"
  by (simp add: transformAuthentication_def transformAuth_def auth_consts)

lemma transformAuthentication_asap_defaults:
  "transformAuthentication \<lparr> auth_type = ''asap'', auth_schemes = ss \<rparr> =
   Inr (transformAuth AUTH_ASAP [])"
  by (simp add: transformAuthentication_def transformAuth_def auth_consts)

text \<open>
  Claim C1.  The claim says that converting an SDK auth object to engine form carries every
  field set in the scheme's key/value array into the engine object, for instance basic's
  username and password.  Evaluated on the code: for \<^verbatim>\<open>basic\<close> with
  \<^verbatim>\<open>username = user\<close> and \<^verbatim>\<open>password = pass\<close>, the engine object's
  \<^verbatim>\<open>username\<close> and \<^verbatim>\<open>password\<close> are the whole entries
  \<^verbatim>\<open>{ key, value }\<close>, not the strings; and for \<^verbatim>\<open>oauth1\<close> with
  \<^verbatim>\<open>consumerKey = ck\<close> the engine object's \<^verbatim>\<open>consumerKey\<close> is the empty string.
\<close>

theorem transformAuthentication_entry_not_value:
  "transformAuthentication
     \<lparr> auth_type = ''basic'',
       auth_schemes =
         [(''basic'', [\<lparr> kv_key = ''username'', kv_value = ''user'' \<rparr>,
                      \<lparr> kv_key = ''password'', kv_value = ''pass'' \<rparr>])] \<rparr>
   = Inr (JObj [(''type'', JStr ''basic''),
                (''useISO88591'', JBool False),
                (''disabled'', JBool False),
                (''username'', JObj [(''key'', JStr ''username''), (''value'', JStr ''user'')]),
                (''password'', JObj [(''key'', JStr ''password''), (''value'', JStr ''pass'')])]) \<and>
   transformAuthentication
     \<lparr> auth_type = ''oauth1'',
       auth_schemes = [(''oauth1'', [\<lparr> kv_key = ''consumerKey'', kv_value = ''ck'' \<rparr>])] \<rparr>
   = Inr (JObj [(''type'', JStr ''oauth1''),
                (''disabled'', JBool False),
                (''signatureMethod'', JStr ''HMAC-SHA1''),
                (''consumerKey'', JStr []),
                (''consumerSecret'', JStr []),
                (''tokenKey'', JStr []),
                (''tokenSecret'', JStr []),
                (''privateKey'', JStr []),
                (''version'', JStr ''1.0''),
                (''nonce'', JStr []),
                (''timestamp'', JStr []),
                (''callback'', JStr [])])"
  by (simp add: transformAuthentication_def transformAuth_def auth_consts findValueInObj_def
      scheme_of_def kv_obj_def js_or_def)

lemma transformAuthentication_unknown:
  "t \<notin> set sdk_auth_types \<Longrightarrow>
   transformAuthentication \<lparr> auth_type = t, auth_schemes = ss \<rparr>
     = Inl (Error (''unknown auth type: '' @ t))"
  by (simp add: transformAuthentication_def sdk_auth_types_def)

lemma transformToPreRequestAuth_unknown:
  assumes "get_prop auth ''type'' = v" and "truthy v" and "v \<notin> JStr ` set sdk_auth_types"
  shows "transformToPreRequestAuth auth =
         Inl (Error (''unknown auth type or unsupported auth type: '' @ to_str v))"
proof -
  have "truthy auth" using assms(1,2) truthy_get_prop by blast
  then show ?thesis
    using assms by (simp add: transformToPreRequestAuth_def sdk_auth_types_def Let_def)
qed

lemma transformAuth_default:
  "t \<notin> set engine_auth_types \<Longrightarrow> transformAuth t old = JObj [(''type'', JStr t)]"
  by (simp add: transformAuth_def engine_auth_types_def)

text \<open>
  Claim C2, as stated: at every auth conversion boundary, \<^verbatim>\<open>transformAuth\<close> included,
  an unrecognized type string makes the conversion fail with an error that carries the
  type, and no object is returned.  Counterexample: \<^verbatim>\<open>transformAuth('bogus', {})\<close>
  returns the object \<^verbatim>\<open>{ type: 'bogus' }\<close>.
\<close>

theorem transformAuth_unknown_returns_object:
  "transformAuth ''bogus'' [] = JObj [(''type'', JStr ''bogus'')]"
  by (simp add: transformAuth_def auth_consts)

text \<open>
  Claim C2, amended.  \<^verbatim>\<open>transformAuthentication\<close> fails with
  \<^verbatim>\<open>unknown auth type: <type>\<close> for every type outside its case labels;
  \<^verbatim>\<open>transformToPreRequestAuth\<close> fails with
  \<^verbatim>\<open>unknown auth type or unsupported auth type: <type>\<close> for every non-empty type
  string outside its case labels; \<^verbatim>\<open>transformAuth\<close> does not fail: for a type
  outside its case labels it returns \<^verbatim>\<open>{ type }\<close>.
\<close>

theorem auth_unknown_type:
  "(t \<notin> set sdk_auth_types \<longrightarrow>
      transformAuthentication \<lparr> auth_type = t, auth_schemes = ss \<rparr>
        = Inl (Error (''unknown auth type: '' @ t))) \<and>
   (t \<noteq> [] \<and> t \<notin> set sdk_auth_types \<and> get_prop auth ''type'' = JStr t \<longrightarrow>
      transformToPreRequestAuth auth
        = Inl (Error (''unknown auth type or unsupported auth type: '' @ t))) \<and>
   (t \<notin> set engine_auth_types \<longrightarrow> transformAuth t old = JObj [(''type'', JStr t)])"
proof (intro conjI impI)
  assume "t \<notin> set sdk_auth_types"
  then show "transformAuthentication \<lparr> auth_type = t, auth_schemes = ss \<rparr>
        = Inl (Error (''unknown auth type: '' @ t))"
    by (rule transformAuthentication_unknown)
next
  assume a: "t \<noteq> [] \<and> t \<notin> set sdk_auth_types \<and> get_prop auth ''type'' = JStr t"
  then have "JStr t \<notin> JStr ` set sdk_auth_types" by auto
  with a show "transformToPreRequestAuth auth
        = Inl (Error (''unknown auth type or unsupported auth type: '' @ t))"
    using transformToPreRequestAuth_unknown [of auth "JStr t"] by simp
next
  assume "t \<notin> set engine_auth_types"
  then show "transformAuth t old = JObj [(''type'', JStr t)]"
    by (rule transformAuth_default)
qed

theorem auth_unknown_type_witness:
  "''bogus'' \<notin> set sdk_auth_types \<and> ''bogus'' \<notin> set engine_auth_types \<and>
   get_prop (JObj [(''type'', JStr ''bogus'')]) ''type'' = JStr ''bogus'' \<and>
   transformAuthentication \<lparr> auth_type = ''bogus'', auth_schemes = [] \<rparr>
     = Inl (Error ''unknown auth type: bogus'') \<and>
   transformToPreRequestAuth (JObj [(''type'', JStr ''bogus'')])
     = Inl (Error ''unknown auth type or unsupported auth type: bogus'') \<and>
   transformAuth ''bogus'' [(''username'', JStr ''u'')] = JObj [(''type'', JStr ''bogus'')]"
proof -
  have a: "''bogus'' \<notin> set sdk_auth_types" by (simp add: sdk_auth_types_def)
  have b: "''bogus'' \<notin> set engine_auth_types" by (simp add: engine_auth_types_def auth_consts)
  have c: "get_prop (JObj [(''type'', JStr ''bogus'')]) ''type'' = JStr ''bogus''" by simp
  show ?thesis
    using a b c
      auth_unknown_type [of "''bogus''" "[]" "JObj [(''type'', JStr ''bogus'')]"
        "[(''username'', JStr ''u'')]"]
    by simp
qed

text \<open>
  Claim C10.  \<^verbatim>\<open>transformToPreRequestAuth\<close> returns \<^verbatim>\<open>{ type: 'noauth' }\<close> for a
  null or undefined argument, and for one whose \<^verbatim>\<open>type\<close> is absent or falsy.  It
  fails only when \<^verbatim>\<open>type\<close> is truthy: with the message of \<^verbatim>\<open>netrc\<close> for that
  label, and with the unknown-type message, which carries the type, for a type that is none
  of the case labels.
\<close>

theorem transformToPreRequestAuth_falsy:
  "(\<not> truthy auth \<or> \<not> truthy (get_prop auth ''type'') \<longrightarrow>
      transformToPreRequestAuth auth = Inr (JObj [(''type'', JStr ''noauth'')])) \<and>
   (transformToPreRequestAuth auth = Inl e \<longrightarrow>
      truthy auth \<and> truthy (get_prop auth ''type'') \<and>
      (get_prop auth ''type'' = JStr ''netrc'' \<and> e = Error ''net rc is not supported yet'' \<or>
       get_prop auth ''type'' \<notin> JStr ` set sdk_auth_types \<and>
       e = Error (''unknown auth type or unsupported auth type: '' @
                  to_str (get_prop auth ''type''))))"
  by (auto simp add: transformToPreRequestAuth_def noauth_obj_def sdk_auth_types_def Let_def
      split: if_splits)

theorem transformToPreRequestAuth_falsy_witness:
  "transformToPreRequestAuth JNull = Inr (JObj [(''type'', JStr ''noauth'')]) \<and>
   transformToPreRequestAuth JUndefined = Inr (JObj [(''type'', JStr ''noauth'')]) \<and>
   transformToPreRequestAuth (JObj [(''username'', JStr ''u'')])
     = Inr (JObj [(''type'', JStr ''noauth'')]) \<and>
   transformToPreRequestAuth (JObj [(''type'', JStr [])])
     = Inr (JObj [(''type'', JStr ''noauth'')]) \<and>
   transformToPreRequestAuth (JObj [(''type'', JStr ''bogus'')])
     = Inl (Error ''unknown auth type or unsupported auth type: bogus'') \<and>
   truthy (get_prop (JObj [(''type'', JStr ''bogus'')]) ''type'')"
proof -
  have n: "transformToPreRequestAuth (JObj [(''type'', JStr ''bogus'')])
     = Inl (Error ''unknown auth type or unsupported auth type: bogus'')"
    by (simp add: transformToPreRequestAuth_def Let_def)
  show ?thesis
    using transformToPreRequestAuth_falsy [of JNull]
      transformToPreRequestAuth_falsy [of JUndefined]
      transformToPreRequestAuth_falsy [of "JObj [(''username'', JStr ''u'')]"]
      transformToPreRequestAuth_falsy [of "JObj [(''type'', JStr [])]"]
      transformToPreRequestAuth_falsy [of "JObj [(''type'', JStr ''bogus'')]"
        "Error ''unknown auth type or unsupported auth type: bogus''"] n
    by simp
qed

section \<open>RequestBody: the two failure policies\<close>

text \<open>
  Claim C8.  For a body whose mode is none of \<^verbatim>\<open>formdata\<close>, \<^verbatim>\<open>urlencoded\<close>,
  \<^verbatim>\<open>raw\<close>, \<^verbatim>\<open>file\<close>, \<^verbatim>\<open>graphql\<close> (an undefined mode included),
  \<^verbatim>\<open>isEmpty()\<close> fails with an error that names the mode and \<^verbatim>\<open>toString()\<close>
  returns the empty string; for each recognized mode both read the payload field of that
  mode.
\<close>

theorem body_mode_dispatch:
  "(rb_mode b = None \<longrightarrow>
      isEmpty b = Inl (Error ''mode (undefined) is unexpected'') \<and> toString f u g b = []) \<and>
   (rb_mode b = Some m \<and> m \<notin> set recognized_modes \<longrightarrow>
      isEmpty b = Inl (Error (''mode ('' @ m @ '') is unexpected'')) \<and> toString f u g b = []) \<and>
   (rb_mode b = Some ''formdata'' \<longrightarrow>
      isEmpty b = Inr (rb_formdata b = None) \<and>
      toString f u g b =
        (case rb_formdata b of
           None \<Rightarrow> []
         | Some ps \<Rightarrow> (case f ps of Inr s \<Rightarrow> s | Inl e \<Rightarrow> []))) \<and>
   (rb_mode b = Some ''urlencoded'' \<longrightarrow>
      isEmpty b = Inr (rb_urlencoded b = None) \<and>
      toString f u g b =
        (case rb_urlencoded b of
           None \<Rightarrow> []
         | Some qs \<Rightarrow> (case u qs of Inr s \<Rightarrow> s | Inl e \<Rightarrow> []))) \<and>
   (rb_mode b = Some ''raw'' \<longrightarrow>
      isEmpty b = Inr (rb_raw b = None) \<and>
      toString f u g b = (case rb_raw b of None \<Rightarrow> [] | Some s \<Rightarrow> s)) \<and>
   (rb_mode b = Some ''file'' \<longrightarrow>
      isEmpty b = Inr (rb_file b = None) \<and>
      toString f u g b = (case rb_file b of None \<Rightarrow> [] | Some s \<Rightarrow> s)) \<and>
   (rb_mode b = Some ''graphql'' \<longrightarrow>
      isEmpty b = Inr (rb_graphql b = JUndefined \<or> rb_graphql b = JNull) \<and>
      toString f u g b =
        (if truthy (rb_graphql b)
         then (case g (rb_graphql b) of Inr s \<Rightarrow> s | Inl e \<Rightarrow> [])
         else []))"
  by (auto simp add: isEmpty_def toString_def toString_switch_def unexpected_mode_def
      mode_text_def recognized_modes_def nullish_def split: option.splits sum.splits)

theorem body_mode_dispatch_witness:
  "''binary'' \<notin> set recognized_modes \<and>
   isEmpty \<lparr> rb_mode = Some ''binary'', rb_file = None, rb_formdata = None,
             rb_graphql = JUndefined, rb_raw = Some ''abc'', rb_urlencoded = None \<rparr>
     = Inl (Error ''mode (binary) is unexpected'') \<and>
   toString (\<lambda>ps. Inr []) (\<lambda>qs. Inr []) (\<lambda>v. Inr [])
           \<lparr> rb_mode = Some ''binary'', rb_file = None, rb_formdata = None,
             rb_graphql = JUndefined, rb_raw = Some ''abc'', rb_urlencoded = None \<rparr> = [] \<and>
   isEmpty \<lparr> rb_mode = None, rb_file = None, rb_formdata = None,
             rb_graphql = JUndefined, rb_raw = Some ''abc'', rb_urlencoded = None \<rparr>
     = Inl (Error ''mode (undefined) is unexpected'') \<and>
   isEmpty \<lparr> rb_mode = Some ''raw'', rb_file = None, rb_formdata = None,
             rb_graphql = JUndefined, rb_raw = Some ''abc'', rb_urlencoded = None \<rparr>
     = Inr False \<and>
   toString (\<lambda>ps. Inr []) (\<lambda>qs. Inr []) (\<lambda>v. Inr [])
           \<lparr> rb_mode = Some ''raw'', rb_file = None, rb_formdata = None,
             rb_graphql = JUndefined, rb_raw = Some ''abc'', rb_urlencoded = None \<rparr> = ''abc''"
proof -
  let ?b = "\<lambda>m. \<lparr> rb_mode = m, rb_file = None, rb_formdata = None,
             rb_graphql = JUndefined, rb_raw = Some ''abc'', rb_urlencoded = None \<rparr>"
  have m: "''binary'' \<notin> set recognized_modes" by (simp add: recognized_modes_def)
  show ?thesis
    using m
      body_mode_dispatch [of "?b (Some ''binary'')" "\<lambda>ps. Inr []" "\<lambda>qs. Inr []" "\<lambda>v. Inr []" "''binary''"]
      body_mode_dispatch [of "?b None" "\<lambda>ps. Inr []" "\<lambda>qs. Inr []" "\<lambda>v. Inr []" "''binary''"]
      body_mode_dispatch [of "?b (Some ''raw'')" "\<lambda>ps. Inr []" "\<lambda>qs. Inr []" "\<lambda>v. Inr []" "''binary''"]
    by simp
qed

section \<open>Request.clone\<close>

text \<open>
  Claim C5.  The claim says that \<^verbatim>\<open>clone()\<close> returns a request deeply equal to the
  source that shares no mutable sub-object with it.  Evaluated on the code: the clone
  allocates no \<^verbatim>\<open>Url\<close> and holds the address of the source's \<^verbatim>\<open>Url\<close>, so
  \<^verbatim>\<open>addQueryParams\<close> on the clone changes the \<^verbatim>\<open>Url\<close> the source reads; and the
  clone of a request without a body has a body, whose mode and payload fields are undefined.
\<close>

theorem clone_shares_url:
  "fst (clone Url_new query_entries pid heap this) = heap \<and>
   req_url (snd (clone Url_new query_entries pid heap this)) = req_url this \<and>
   url_of (addQueryParams Url_add heap (snd (clone Url_new query_entries pid heap this)) params) this
     = map_option (\<lambda>u. Url_add u params) (url_of heap this) \<and>
   req_body (snd (clone Url_new query_entries pid heap (this\<lparr> req_body := None \<rparr>)))
     = Some \<lparr> rb_mode = None, rb_file = None, rb_formdata = None, rb_graphql = JUndefined,
              rb_raw = None, rb_urlencoded = None \<rparr>"
  by (simp add: clone_def clone_options_def Request_new_def addQueryParams_def url_of_def
      RequestBody_new_def body_opt_def)

section \<open>Response: status, JSON body\<close>

lemma Response_status_lookup:
  "resp_status (Response_new tbl opts) = tbl (ropt_code opts)"
  by (simp add: Response_new_def)

text \<open>
  Claim C4.  The claim says that \<^verbatim>\<open>status\<close> is the supplied reason phrase when one is
  supplied, and the table's entry only otherwise.  Evaluated on the code, with
  \<^verbatim>\<open>status\<close> and \<^verbatim>\<open>reason\<close> both supplied as \<^verbatim>\<open>Fine\<close>: for code 200 the
  status is the table's \<^verbatim>\<open>OK\<close>, and for code 299, which the table lacks, it is
  undefined.
\<close>

theorem Response_status_ignores_supplied:
  "resp_status
     (Response_new (\<lambda>c. if c = 200 then Some ''OK'' else None)
        \<lparr> ropt_code = 200, ropt_reason = Some ''Fine'', ropt_header = None, ropt_cookie = None,
          ropt_body = None, ropt_stream = None, ropt_responseTime = 0,
          ropt_status = Some ''Fine'' \<rparr>) = Some ''OK'' \<and>
   resp_status
     (Response_new (\<lambda>c. if c = 200 then Some ''OK'' else None)
        \<lparr> ropt_code = 299, ropt_reason = Some ''Fine'', ropt_header = None, ropt_cookie = None,
          ropt_body = None, ropt_stream = None, ropt_responseTime = 0,
          ropt_status = Some ''Fine'' \<rparr>) = None"
  by (simp add: Response_new_def)





section \<open>Lifting the engine's result\<close>

lemma last_hop: "xs \<noteq> [] \<Longrightarrow> xs ! (length xs - Suc 0) = last xs"
  by (simp add: last_conv_nth)

lemma lower_examples:
  "toLowerCase ''Set-Cookie'' = ''set-cookie''"
  "toLowerCase ''SET-COOKIE'' = ''set-cookie''"
  "toLowerCase ''set-cookie'' = ''set-cookie''"
  "toLowerCase ''Content-Type'' = ''content-type''"
  by code_simp+






text \<open>
  A parse result \<^verbatim>\<open>null\<close> is not \<^verbatim>\<open>undefined\<close>: it passes the filter and stays in
  the list.
\<close>

lemma cookies_of_null_kept:
  "Cookie_parse [] = IsNull \<Longrightarrow>
   cookies_of Cookie_parse
     \<lparr> hr_headers = [\<lparr> rh_name = ''Set-Cookie'', rh_value = [] \<rparr>],
       hr_version = v, hr_code = c, hr_reason = m \<rparr> = [IsNull]"
  by (simp add: cookies_of_def cookieHeaders_of_def lower_examples)






section \<open>sendRequest\<close>

lemma string_lowering:
  "fromRequestToCurlOptions d heap (ReqString url) =
   Inr \<lparr> co_requestId = ''pre-request-script-adhoc-str-req:'' @ d_uuid d,
         co_req =
           \<lparr> creq_headers = [], creq_method = ''GET'', creq_body_method = None,
             creq_body_text = None, creq_authentication = JObj [],
             creq_settingFollowRedirects = (if d_followRedirects d then ''on'' else ''off''),
             creq_url = url, creq_suppressUserAgent = False \<rparr>,
         co_finalUrl = url, co_certificates = [] \<rparr>"
  by (simp add: fromRequestToCurlOptions_def transformAuthentication_def transformAuth_def
      AUTH_NONE_def)

text \<open>
  The lifting, case by case: without a stored body, with a stored body that is read, with a
  read that is rejected, and with a read that reports an error.
\<close>

lemma lift_no_path:
  assumes "out_headerResults out \<noteq> []"
    and "out_responseBodyPath out = None \<or> out_responseBodyPath out = Some []"
  shows "fromCurlOutputToResponse tbl cp rd out =
         Inr \<lparr> resp_body = [],
               resp_code = hr_code (last (out_headerResults out)),
               resp_cookies = cookies_of cp (last (out_headerResults out)),
               resp_headers =
                 map (\<lambda>h. \<lparr> hdr_key = rh_name h, hdr_value = rh_value h, hdr_disabled = None \<rparr>)
                   (hr_headers (last (out_headerResults out))),
               resp_responseTime = patch_elapsedTime (out_patch out),
               resp_status = tbl (hr_code (last (out_headerResults out))),
               resp_stream = None \<rparr>"
  using assms
  by (auto simp add: fromCurlOutputToResponse_def Response_new_def Let_def last_hop)

lemma lift_read_ok:
  assumes "out_headerResults out \<noteq> []"
    and "out_responseBodyPath out = Some p" and "p \<noteq> []"
    and "rd p (patch_bodyCompression (out_patch out)) = Inr b"
    and "br_error b = None \<or> br_error b = Some []"
  shows "fromCurlOutputToResponse tbl cp rd out =
         Inr \<lparr> resp_body = br_body b,
               resp_code = hr_code (last (out_headerResults out)),
               resp_cookies = cookies_of cp (last (out_headerResults out)),
               resp_headers =
                 map (\<lambda>h. \<lparr> hdr_key = rh_name h, hdr_value = rh_value h, hdr_disabled = None \<rparr>)
                   (hr_headers (last (out_headerResults out))),
               resp_responseTime = patch_elapsedTime (out_patch out),
               resp_status = tbl (hr_code (last (out_headerResults out))),
               resp_stream = None \<rparr>"
  using assms
  by (auto simp add: fromCurlOutputToResponse_def Response_new_def Let_def last_hop)

lemma lift_read_rejected:
  assumes "out_headerResults out \<noteq> []"
    and "out_responseBodyPath out = Some p" and "p \<noteq> []"
    and "rd p (patch_bodyCompression (out_patch out)) = Inl e"
  shows "fromCurlOutputToResponse tbl cp rd out = Inl e"
  using assms by (simp add: fromCurlOutputToResponse_def Let_def)

lemma lift_read_error:
  assumes "out_headerResults out \<noteq> []"
    and "out_responseBodyPath out = Some p" and "p \<noteq> []"
    and "rd p (patch_bodyCompression (out_patch out)) = Inr b"
    and "br_error b = Some err" and "err \<noteq> []"
  shows "fromCurlOutputToResponse tbl cp rd out = Inl (Error err)"
  using assms by (simp add: fromCurlOutputToResponse_def Let_def)

lemma send_events:
  assumes "fromRequestToCurlOptions d heap request = Inr opts"
    and "curlRequest opts = Settles (Inr out)"
  shows "sr_events (sendRequest d tbl cp rd curlRequest heap request) =
       [SetCancel (co_requestId opts) (CancelRequest (co_requestId opts)),
        CurlRequest (co_requestId opts),
        (case fromCurlOutputToResponse tbl cp rd out of
           Inr r \<Rightarrow> Callback None (Some r)
         | Inl e \<Rightarrow> Callback (Some (ErrValue e)) None)]"
  using assms by (simp add: sendRequest_def Let_def split: sum.splits)


text \<open>
  Claim C9.  For a bare string URL and an engine result with a non-empty
  \<^verbatim>\<open>headerResults\<close>, the call registers the cancellation entry, dispatches, and calls
  the callback once.  Without a stored body, and with a stored body whose read succeeds,
  the callback receives a response, whose code and headers are those of the last
  \<^verbatim>\<open>headerResults\<close> entry and whose body is empty or the body read.  When the read is
  rejected or reports an error, the callback receives that error and no response.
\<close>

theorem sendRequest_string_final_hop:
  "fromRequestToCurlOptions d heap (ReqString url) = Inr opts \<and>
   curlRequest opts = Settles (Inr out) \<and> out_headerResults out \<noteq> [] \<longrightarrow>
     (out_responseBodyPath out = None \<or> out_responseBodyPath out = Some [] \<longrightarrow>
        sr_events (sendRequest d tbl cp rd curlRequest heap (ReqString url)) =
          [SetCancel (co_requestId opts) (CancelRequest (co_requestId opts)),
           CurlRequest (co_requestId opts),
           Callback None
             (Some \<lparr> resp_body = [],
                     resp_code = hr_code (last (out_headerResults out)),
                     resp_cookies = cookies_of cp (last (out_headerResults out)),
                     resp_headers =
                       map (\<lambda>h. \<lparr> hdr_key = rh_name h, hdr_value = rh_value h,
                                  hdr_disabled = None \<rparr>)
                         (hr_headers (last (out_headerResults out))),
                     resp_responseTime = patch_elapsedTime (out_patch out),
                     resp_status = tbl (hr_code (last (out_headerResults out))),
                     resp_stream = None \<rparr>)]) \<and>
     (out_responseBodyPath out = Some p \<and> p \<noteq> [] \<and>
      rd p (patch_bodyCompression (out_patch out)) = Inr b \<and>
      (br_error b = None \<or> br_error b = Some []) \<longrightarrow>
        sr_events (sendRequest d tbl cp rd curlRequest heap (ReqString url)) =
          [SetCancel (co_requestId opts) (CancelRequest (co_requestId opts)),
           CurlRequest (co_requestId opts),
           Callback None
             (Some \<lparr> resp_body = br_body b,
                     resp_code = hr_code (last (out_headerResults out)),
                     resp_cookies = cookies_of cp (last (out_headerResults out)),
                     resp_headers =
                       map (\<lambda>h. \<lparr> hdr_key = rh_name h, hdr_value = rh_value h,
                                  hdr_disabled = None \<rparr>)
                         (hr_headers (last (out_headerResults out))),
                     resp_responseTime = patch_elapsedTime (out_patch out),
                     resp_status = tbl (hr_code (last (out_headerResults out))),
                     resp_stream = None \<rparr>)]) \<and>
     (out_responseBodyPath out = Some p \<and> p \<noteq> [] \<and>
      rd p (patch_bodyCompression (out_patch out)) = Inl e \<longrightarrow>
        sr_events (sendRequest d tbl cp rd curlRequest heap (ReqString url)) =
          [SetCancel (co_requestId opts) (CancelRequest (co_requestId opts)),
           CurlRequest (co_requestId opts),
           Callback (Some (ErrValue e)) None]) \<and>
     (out_responseBodyPath out = Some p \<and> p \<noteq> [] \<and>
      rd p (patch_bodyCompression (out_patch out)) = Inr b \<and>
      br_error b = Some err \<and> err \<noteq> [] \<longrightarrow>
        sr_events (sendRequest d tbl cp rd curlRequest heap (ReqString url)) =
          [SetCancel (co_requestId opts) (CancelRequest (co_requestId opts)),
           CurlRequest (co_requestId opts),
           Callback (Some (ErrValue (Error err))) None])"
proof (intro impI conjI)
  assume a: "fromRequestToCurlOptions d heap (ReqString url) = Inr opts \<and>
   curlRequest opts = Settles (Inr out) \<and> out_headerResults out \<noteq> []"
  then have ev: "sr_events (sendRequest d tbl cp rd curlRequest heap (ReqString url)) =
       [SetCancel (co_requestId opts) (CancelRequest (co_requestId opts)),
        CurlRequest (co_requestId opts),
        (case fromCurlOutputToResponse tbl cp rd out of
           Inr r \<Rightarrow> Callback None (Some r)
         | Inl e \<Rightarrow> Callback (Some (ErrValue e)) None)]"
    using send_events by blast
  {
    assume "out_responseBodyPath out = None \<or> out_responseBodyPath out = Some []"
    then show "sr_events (sendRequest d tbl cp rd curlRequest heap (ReqString url)) =
          [SetCancel (co_requestId opts) (CancelRequest (co_requestId opts)),
           CurlRequest (co_requestId opts),
           Callback None
             (Some \<lparr> resp_body = [],
                     resp_code = hr_code (last (out_headerResults out)),
                     resp_cookies = cookies_of cp (last (out_headerResults out)),
                     resp_headers =
                       map (\<lambda>h. \<lparr> hdr_key = rh_name h, hdr_value = rh_value h,
                                  hdr_disabled = None \<rparr>)
                         (hr_headers (last (out_headerResults out))),
                     resp_responseTime = patch_elapsedTime (out_patch out),
                     resp_status = tbl (hr_code (last (out_headerResults out))),
                     resp_stream = None \<rparr>)]"
      using a ev lift_no_path [of out tbl cp rd] by simp
  }
  {
    assume "out_responseBodyPath out = Some p \<and> p \<noteq> [] \<and>
      rd p (patch_bodyCompression (out_patch out)) = Inr b \<and>
      (br_error b = None \<or> br_error b = Some [])"
    then show "sr_events (sendRequest d tbl cp rd curlRequest heap (ReqString url)) =
          [SetCancel (co_requestId opts) (CancelRequest (co_requestId opts)),
           CurlRequest (co_requestId opts),
           Callback None
             (Some \<lparr> resp_body = br_body b,
                     resp_code = hr_code (last (out_headerResults out)),
                     resp_cookies = cookies_of cp (last (out_headerResults out)),
                     resp_headers =
                       map (\<lambda>h. \<lparr> hdr_key = rh_name h, hdr_value = rh_value h,
                                  hdr_disabled = None \<rparr>)
                         (hr_headers (last (out_headerResults out))),
                     resp_responseTime = patch_elapsedTime (out_patch out),
                     resp_status = tbl (hr_code (last (out_headerResults out))),
                     resp_stream = None \<rparr>)]"
      using a ev lift_read_ok [of out p rd b tbl cp] by simp
  }
  {
    assume "out_responseBodyPath out = Some p \<and> p \<noteq> [] \<and>
      rd p (patch_bodyCompression (out_patch out)) = Inl e"
    then show "sr_events (sendRequest d tbl cp rd curlRequest heap (ReqString url)) =
          [SetCancel (co_requestId opts) (CancelRequest (co_requestId opts)),
           CurlRequest (co_requestId opts),
           Callback (Some (ErrValue e)) None]"
      using a ev lift_read_rejected [of out p rd e tbl cp] by simp
  }
  {
    assume "out_responseBodyPath out = Some p \<and> p \<noteq> [] \<and>
      rd p (patch_bodyCompression (out_patch out)) = Inr b \<and>
      br_error b = Some err \<and> err \<noteq> []"
    then show "sr_events (sendRequest d tbl cp rd curlRequest heap (ReqString url)) =
          [SetCancel (co_requestId opts) (CancelRequest (co_requestId opts)),
           CurlRequest (co_requestId opts),
           Callback (Some (ErrValue (Error err))) None]"
      using a ev lift_read_error [of out p rd b err tbl cp] by simp
  }
qed

theorem sendRequest_string_final_hop_witness:
  "sr_events
     (sendRequest
        \<lparr> d_Url_new = (\<lambda>s. s), d_Url_toString = (\<lambda>u. u), d_query_entries = (\<lambda>s. []),
          d_formdata_str = (\<lambda>ps. Inr []), d_urlencoded_str = (\<lambda>qs. Inr []),
          d_stringify = (\<lambda>v. Inr []), d_followRedirects = True, d_uuid = ''u1'',
          d_new_id = [] \<rparr>
        (\<lambda>c. if c = 200 then Some ''OK'' else None)
        (\<lambda>s. IsUndefined)
        (\<lambda>p c. if p = ''/tmp/body'' then Inr \<lparr> br_body = [0x68, 0x69], br_error = None \<rparr>
                else Inl (Error ''no file''))
        (\<lambda>opts. Settles (Inr
           \<lparr> out_patch = \<lparr> patch_elapsedTime = 7, patch_bodyCompression = None \<rparr>,
             out_headerResults =
               [\<lparr> hr_headers = [\<lparr> rh_name = ''Location'', rh_value = ''/echo'' \<rparr>],
                  hr_version = ''HTTP/1.1'', hr_code = 301, hr_reason = ''Moved Permanently'' \<rparr>,
                \<lparr> hr_headers = [\<lparr> rh_name = ''Content-Type'', rh_value = ''text/plain'' \<rparr>],
                  hr_version = ''HTTP/1.1'', hr_code = 200, hr_reason = ''OK'' \<rparr>],
             out_responseBodyPath = Some ''/tmp/body'' \<rparr>))
        []
        (ReqString ''http://127.0.0.1:4010/redirect''))
   = [SetCancel ''pre-request-script-adhoc-str-req:u1''
        (CancelRequest ''pre-request-script-adhoc-str-req:u1''),
      CurlRequest ''pre-request-script-adhoc-str-req:u1'',
      Callback None
        (Some \<lparr> resp_body = [0x68, 0x69], resp_code = 200, resp_cookies = [],
                resp_headers =
                  [\<lparr> hdr_key = ''Content-Type'', hdr_value = ''text/plain'',
                     hdr_disabled = None \<rparr>],
                resp_responseTime = 7, resp_status = Some ''OK'', resp_stream = None \<rparr>)]"
  (is "sr_events (sendRequest ?d ?tbl ?cp ?rd ?curl ?heap ?req) = ?evs")
proof -
  let ?out = "\<lparr> out_patch = \<lparr> patch_elapsedTime = 7, patch_bodyCompression = None \<rparr>,
             out_headerResults =
               [\<lparr> hr_headers = [\<lparr> rh_name = ''Location'', rh_value = ''/echo'' \<rparr>],
                  hr_version = ''HTTP/1.1'', hr_code = 301, hr_reason = ''Moved Permanently'' \<rparr>,
                \<lparr> hr_headers = [\<lparr> rh_name = ''Content-Type'', rh_value = ''text/plain'' \<rparr>],
                  hr_version = ''HTTP/1.1'', hr_code = 200, hr_reason = ''OK'' \<rparr>],
             out_responseBodyPath = Some ''/tmp/body'' \<rparr>"
  let ?b = "\<lparr> br_body = [0x68, 0x69], br_error = None \<rparr>"
  obtain opts where o: "fromRequestToCurlOptions ?d ?heap ?req = Inr opts"
    and i: "co_requestId opts = ''pre-request-script-adhoc-str-req:u1''"
    by (simp add: string_lowering)
  have c: "cookies_of ?cp (last (out_headerResults ?out)) = []"
    by (simp add: cookies_of_def cookieHeaders_of_def lower_examples)
  show ?thesis
    using sendRequest_string_final_hop [of ?d ?heap "''http://127.0.0.1:4010/redirect''" opts
        ?curl ?out ?tbl ?cp ?rd "''/tmp/body''" ?b] o i c
    by simp
qed

text \<open>
  Claim C3.  The claim says that the registry entry is created before the dispatch and
  removed on every failure path, transport failure and abort included.  Evaluated on the
  code, for a string URL and an engine promise that rejects with any value \<open>e\<close>: the
  entry is set before the engine call, the callback receives \<open>e\<close>, no removal happens,
  and the registry still holds the entry afterwards.
\<close>

theorem sendRequest_rejection_keeps_entry:
  "sr_thrown (sendRequest d tbl cp rd (\<lambda>opts. Settles (Inl e)) heap (ReqString url)) = None \<and>
   sr_events (sendRequest d tbl cp rd (\<lambda>opts. Settles (Inl e)) heap (ReqString url)) =
     [SetCancel (''pre-request-script-adhoc-str-req:'' @ d_uuid d)
        (CancelRequest (''pre-request-script-adhoc-str-req:'' @ d_uuid d)),
      CurlRequest (''pre-request-script-adhoc-str-req:'' @ d_uuid d),
      Callback (Some (ErrValue e)) None] \<and>
   run_events reg
     (sr_events (sendRequest d tbl cp rd (\<lambda>opts. Settles (Inl e)) heap (ReqString url)))
     (''pre-request-script-adhoc-str-req:'' @ d_uuid d)
     = Some (CancelRequest (''pre-request-script-adhoc-str-req:'' @ d_uuid d))"
  by (simp add: sendRequest_def string_lowering run_events_def Let_def)

text \<open>
  The entry is removed only when the engine call throws while the chain is being built;
  after a response has been delivered it is still there.
\<close>

lemma sendRequest_sync_throw_deletes:
  "run_events reg
     (sr_events (sendRequest d tbl cp rd (\<lambda>opts. ThrowsSync e) heap (ReqString url)))
     (''pre-request-script-adhoc-str-req:'' @ d_uuid d) = None"
  by (simp add: sendRequest_def string_lowering run_events_def Let_def)

lemma sendRequest_success_keeps_entry:
  "fromCurlOutputToResponse tbl cp rd out = Inr r \<Longrightarrow>
   run_events reg
     (sr_events (sendRequest d tbl cp rd (\<lambda>opts. Settles (Inr out)) heap (ReqString url)))
     (''pre-request-script-adhoc-str-req:'' @ d_uuid d)
     = Some (CancelRequest (''pre-request-script-adhoc-str-req:'' @ d_uuid d))"
  by (simp add: sendRequest_def string_lowering run_events_def Let_def)

end
